theory Spec2Isabelle
  imports Main "HOL-Library.AList" "HOL-Library.Char_ord" "HOL-Library.List_Lexorder"
begin

section \<open>Exceptions and the exception-and-state discipline\<close>

text \<open>
  The exceptions that \<^verbatim>\<open>pyxb/Namespace.py\<close> raises, or that the interpreter raises on its
  behalf (a failed \<^verbatim>\<open>assert\<close>, a missing attribute, a missing dictionary key, an
  operation on \<^verbatim>\<open>None\<close>, an unbound global name).
\<close>

datatype pyerror =
    LogicError string
  | NamespaceUniquenessError string
  | SchemaValidationError string
  | UnpicklingError string
  | AssertionError
  | AttributeError
  | KeyError
  | TypeError
  | NameError string

section \<open>Namespace instances and the process state\<close>

text \<open>
  A value given for \<^verbatim>\<open>default_namespace\<close> or inside \<^verbatim>\<open>in_scope_namespaces\<close>:
  \<^verbatim>\<open>None\<close>, the name of a module global, or a Namespace instance.
\<close>

datatype nsval = NsNone | NsName string | NsRef nat

text \<open>
  The instance attributes of class \<^verbatim>\<open>Namespace\<close> (with those of its mix-in
  \<^verbatim>\<open>_NamespaceCategory_mixin\<close>). Objects are referred to by their identity, a natural
  number; schema components are identities too. A dictionary is an association list
  with distinct keys; \<^verbatim>\<open>None\<close> is \<open>None\<close>.
\<close>

record namespace =
  className :: string
  uri :: "string option"
  absentNamespaceID :: "nat option"
  boundPrefix :: "string option"
  schemaLocation :: "string option"
  description :: "string option"
  isBuiltinNamespace :: bool
  isUndeclaredNamespace :: bool
  modulePath :: "string option"
  bindingConfiguration :: "string option"
  contextDefaultNamespace :: nsval
  contextInScopeNamespaces :: "(string \<times> nsval) list option"
  categoryMap :: "(string \<times> (string \<times> nat) list) list option"
  unresolvedComponents :: "nat list option"
  components :: "nat list option"

text \<open>
  The process state: the class variable \<^verbatim>\<open>Namespace.__Registry\<close>, the live Namespace
  instances, the class variable \<^verbatim>\<open>Namespace.__absentNamespaceID\<close>, and the dictionary
  objects that namespace contexts hold by reference (the in-scope prefix maps, keyed by
  a prefix or by \<^verbatim>\<open>None\<close> for the default namespace).
\<close>

record pystate =
  Registry :: "string \<rightharpoonup> nat"
  instances :: "nat \<rightharpoonup> namespace"
  nextInstance :: nat
  cls_absentNamespaceID :: nat
  dicts :: "nat \<rightharpoonup> (string option \<times> nat) list"
  nextDict :: nat

text \<open>
  A statement that may raise returns the exception or its value, together with the state
  it leaves behind: what was mutated before a \<^verbatim>\<open>raise\<close> stays mutated.
\<close>

type_synonym 'a py = "pystate \<Rightarrow> (pyerror + 'a) \<times> pystate"

definition py_return :: "'a \<Rightarrow> 'a py" where
  "py_return x s = (Inr x, s)"

definition py_raise :: "pyerror \<Rightarrow> 'a py" where
  "py_raise e s = (Inl e, s)"

definition py_bind :: "'a py \<Rightarrow> ('a \<Rightarrow> 'b py) \<Rightarrow> 'b py" where
  "py_bind m f s = (case m s of (Inl e, s') \<Rightarrow> (Inl e, s') | (Inr x, s') \<Rightarrow> f x s')"

definition py_assert :: "bool \<Rightarrow> unit py" where
  "py_assert b = (if b then py_return () else py_raise AssertionError)"

subsection \<open>\<^verbatim>\<open>Namespace._reset\<close>, \<^verbatim>\<open>__new__\<close>, \<^verbatim>\<open>__init__\<close>\<close>

text \<open>
  \<^verbatim>\<open>_reset\<close>: the mix-in's part empties the category map, the Namespace's part the list of
  unresolved components and the component set.
\<close>

definition reset :: "namespace \<Rightarrow> namespace" where
  "reset ns = ns\<lparr>categoryMap := Some [], unresolvedComponents := Some [], components := Some []\<rparr>"

text \<open>An object as \<^verbatim>\<open>object.__new__(cls)\<close> leaves it: every attribute is the class default.\<close>

definition blank :: "string \<Rightarrow> namespace" where
  "blank cls = \<lparr>className = cls, uri = None, absentNamespaceID = None, boundPrefix = None,
     schemaLocation = None, description = None, isBuiltinNamespace = False,
     isUndeclaredNamespace = False, modulePath = None, bindingConfiguration = None,
     contextDefaultNamespace = NsNone, contextInScopeNamespaces = None, categoryMap = None,
     unresolvedComponents = None, components = None\<rparr>"

text \<open>\<^verbatim>\<open>uri in cls.__Registry\<close>: \<^verbatim>\<open>None\<close> is never a key.\<close>

definition in_Registry :: "pystate \<Rightarrow> string option \<Rightarrow> bool" where
  "in_Registry s u = (case u of None \<Rightarrow> False | Some k \<Rightarrow> Registry s k \<noteq> None)"

text \<open>
  \<^verbatim>\<open>Namespace.__new__(cls, uri)\<close>: one instance per URI; an instance for \<^verbatim>\<open>None\<close> is
  returned before the registry is written.
\<close>

definition Namespace_new :: "string \<Rightarrow> string option \<Rightarrow> nat py" where
  "Namespace_new cls u s =
     (if \<not> in_Registry s u then
        (let i = nextInstance s;
             s1 = s\<lparr>instances := (instances s)(i \<mapsto> reset ((blank cls)\<lparr>uri := u\<rparr>)),
                    nextInstance := Suc i\<rparr>
         in case u of
              None \<Rightarrow> (Inr i, s1)
            | Some k \<Rightarrow> (Inr i, s1\<lparr>Registry := (Registry s1)(k \<mapsto> i)\<rparr>))
      else (case u of
              None \<Rightarrow> (Inl KeyError, s)
            | Some k \<Rightarrow> (case Registry s k of None \<Rightarrow> (Inl KeyError, s) | Some i \<Rightarrow> (Inr i, s))))"

text \<open>
  \<^verbatim>\<open>Namespace._NamespaceForURI(uri)\<close>.
\<close>

definition NamespaceForURI_cls :: "string option \<Rightarrow> nat option py" where
  "NamespaceForURI_cls u =
     (case u of None \<Rightarrow> py_raise AssertionError
      | Some k \<Rightarrow> (\<lambda>s. (Inr (Registry s k), s)))"

text \<open>The keyword arguments of \<^verbatim>\<open>Namespace.__init__\<close>, with their defaults.\<close>

record init_args =
  schema_location :: "string option"
  description_arg :: "string option"
  is_builtin_namespace :: bool
  is_undeclared_namespace :: bool
  bound_prefix :: "string option"
  default_namespace :: nsval
  in_scope_namespaces :: "(string \<times> nsval) list option"

definition default_args :: init_args where
  "default_args = \<lparr>schema_location = None, description_arg = None, is_builtin_namespace = False,
     is_undeclared_namespace = False, bound_prefix = None, default_namespace = NsNone,
     in_scope_namespaces = None\<rparr>"

text \<open>Reading and writing the attributes of a live instance.\<close>

definition get_instance :: "nat \<Rightarrow> namespace py" where
  "get_instance i s = (case instances s i of None \<Rightarrow> (Inl AttributeError, s) | Some ns \<Rightarrow> (Inr ns, s))"

definition modify_instance :: "nat \<Rightarrow> (namespace \<Rightarrow> namespace) \<Rightarrow> unit py" where
  "modify_instance i f s =
     (case instances s i of None \<Rightarrow> (Inl AttributeError, s)
      | Some ns \<Rightarrow> (Inr (), s\<lparr>instances := (instances s)(i \<mapsto> f ns)\<rparr>))"

text \<open>
  \<^verbatim>\<open>Namespace.__init__\<close>. The call \<^verbatim>\<open>XMLSchema_instance.validateSchema()\<close> loads the
  built-in schema components through the schema module \<^verbatim>\<open>pyxb.xmlschema\<close>, which is not
  part of this module: it is the parameter \<open>validateSchema\<close>.
\<close>

definition Namespace_init :: "unit py \<Rightarrow> nat \<Rightarrow> string option \<Rightarrow> init_args \<Rightarrow> unit py" where
  "Namespace_init validateSchema self u a =
     py_bind (modify_instance self (\<lambda>ns. ns\<lparr>contextDefaultNamespace := default_namespace a,
                                             contextInScopeNamespaces := in_scope_namespaces a\<rparr>)) (\<lambda>_.
     py_bind (if \<not> is_builtin_namespace a then
                py_bind validateSchema (\<lambda>_.
                  if bound_prefix a \<noteq> None
                  then py_raise (LogicError ''Only permanent Namespaces may have bound prefixes'')
                  else py_return ())
              else py_return ()) (\<lambda>_.
     py_bind (get_instance self) (\<lambda>ns.
     py_bind (py_assert (uri ns = u)) (\<lambda>_.
     py_bind (modify_instance self (\<lambda>ns. reset (ns\<lparr>boundPrefix := bound_prefix a,
                                                    schemaLocation := schema_location a,
                                                    description := description_arg a,
                                                    isBuiltinNamespace := is_builtin_namespace a,
                                                    isUndeclaredNamespace := is_undeclared_namespace a\<rparr>))) (\<lambda>_.
     (\<lambda>s. case u of
             None \<Rightarrow> (Inr (), s)
           | Some k \<Rightarrow> (case Registry s k of
                          None \<Rightarrow> (Inl KeyError, s)
                        | Some j \<Rightarrow> if j = self then (Inr (), s) else (Inl AssertionError, s))))))))"

text \<open>
  \<^verbatim>\<open>isinstance(obj, cls)\<close> for the classes of this module: \<^verbatim>\<open>_XMLSchema_instance\<close>,
  \<^verbatim>\<open>_XML\<close>, \<^verbatim>\<open>_XHTML\<close> and \<^verbatim>\<open>_XMLSchema\<close> extend \<^verbatim>\<open>Namespace\<close>.
\<close>

definition isinstance_ns :: "namespace \<Rightarrow> string \<Rightarrow> bool" where
  "isinstance_ns ns cls = (cls = ''Namespace'' \<or> className ns = cls)"

text \<open>
  The call \<^verbatim>\<open>cls(uri, **kw)\<close>: \<^verbatim>\<open>__new__\<close>, then \<^verbatim>\<open>__init__\<close> on what it returned when
  that is an instance of \<^verbatim>\<open>cls\<close>.
\<close>

definition Namespace_call :: "unit py \<Rightarrow> string \<Rightarrow> string option \<Rightarrow> init_args \<Rightarrow> nat py" where
  "Namespace_call validateSchema cls u a =
     py_bind (Namespace_new cls u) (\<lambda>i.
     py_bind (get_instance i) (\<lambda>ns.
     py_bind (if isinstance_ns ns cls then Namespace_init validateSchema i u a else py_return ()) (\<lambda>_.
     py_return i)))"

text \<open>\<^verbatim>\<open>Namespace(uri)\<close>, as user code writes it.\<close>

definition Namespace :: "unit py \<Rightarrow> string option \<Rightarrow> nat py" where
  "Namespace validateSchema u = Namespace_call validateSchema ''Namespace'' u default_args"

subsection \<open>The lookup API\<close>

text \<open>The module function \<^verbatim>\<open>NamespaceForURI(uri, create_if_missing=False)\<close>.\<close>

definition NamespaceForURI :: "unit py \<Rightarrow> string option \<Rightarrow> bool \<Rightarrow> nat option py" where
  "NamespaceForURI validateSchema u create_if_missing =
     (if u = None then py_raise (LogicError ''Cannot lookup absent namespaces'')
      else py_bind (NamespaceForURI_cls u) (\<lambda>rv.
             if rv = None \<and> create_if_missing
             then py_bind (Namespace validateSchema u) (\<lambda>i. py_return (Some i))
             else py_return rv))"

text \<open>
  \<^verbatim>\<open>Namespace.CreateAbsentNamespace()\<close> and the module function of the same name that
  calls it.
\<close>

definition CreateAbsentNamespace :: "unit py \<Rightarrow> nat py" where
  "CreateAbsentNamespace validateSchema =
     py_bind (Namespace validateSchema None) (\<lambda>rv.
     py_bind (\<lambda>s. modify_instance rv (\<lambda>ns. ns\<lparr>absentNamespaceID := Some (cls_absentNamespaceID s)\<rparr>) s) (\<lambda>_.
     py_bind (\<lambda>s. (Inr (), s\<lparr>cls_absentNamespaceID := Suc (cls_absentNamespaceID s)\<rparr>)) (\<lambda>_.
     py_return rv)))"

section \<open>Category maps\<close>

text \<open>\<^verbatim>\<open>categoryMap(category)\<close>: \<^verbatim>\<open>self.__categoryMap[category]\<close>.\<close>

definition categoryMap_of :: "namespace \<Rightarrow> string \<Rightarrow> pyerror + (string \<times> nat) list" where
  "categoryMap_of ns category =
     (case categoryMap ns of
        None \<Rightarrow> Inl TypeError
      | Some cm \<Rightarrow> (case map_of cm category of None \<Rightarrow> Inl KeyError | Some m \<Rightarrow> Inr m))"

text \<open>
  \<^verbatim>\<open>addCategoryObject(category, local_name, named_object)\<close>. The name map is mutated in
  place, so the namespace's category map holds the new binding.
\<close>

definition addCategoryObject ::
  "namespace \<Rightarrow> string \<Rightarrow> string \<Rightarrow> nat \<Rightarrow> pyerror + (nat \<times> namespace)" where
  "addCategoryObject ns category local_name named_object =
     (case categoryMap_of ns category of
        Inl e \<Rightarrow> Inl e
      | Inr name_map \<Rightarrow>
          (case map_of name_map local_name of
             Some old_object \<Rightarrow>
               if old_object \<noteq> named_object
               then Inl (NamespaceUniquenessError
                          (''Name '' @ local_name @ '' used for multiple values in '' @ category))
               else Inr (named_object,
                         ns\<lparr>categoryMap := map_option
                               (AList.update category (AList.update local_name named_object name_map))
                               (categoryMap ns)\<rparr>)
           | None \<Rightarrow>
               Inr (named_object,
                    ns\<lparr>categoryMap := map_option
                          (AList.update category (AList.update local_name named_object name_map))
                          (categoryMap ns)\<rparr>)))"

text \<open>The component that a category holds under a local name, if any.\<close>

definition categoryLookup :: "namespace \<Rightarrow> string \<Rightarrow> string \<Rightarrow> nat option" where
  "categoryLookup ns category local_name =
     (case categoryMap_of ns category of Inl _ \<Rightarrow> None | Inr m \<Rightarrow> map_of m local_name)"

subsection \<open>What other code may do to the registry\<close>

text \<open>
  The registry is private to class \<^verbatim>\<open>Namespace\<close> and written in \<^verbatim>\<open>__new__\<close> only. A
  step respects it when instances are only ever allocated, registered entries stay, and a
  new entry registers an instance allocated during the step.
\<close>

definition frame :: "pystate \<Rightarrow> pystate \<Rightarrow> bool" where
  "frame s s' = (nextInstance s \<le> nextInstance s'
     \<and> (\<forall>k i. Registry s k = Some i \<longrightarrow> Registry s' k = Some i)
     \<and> (\<forall>k i. Registry s' k = Some i \<longrightarrow> Registry s k = Some i \<or> (nextInstance s \<le> i \<and> i < nextInstance s')))"

definition frames :: "'a py \<Rightarrow> bool" where
  "frames m = (\<forall>s r s'. m s = (r, s') \<longrightarrow> frame s s')"

definition registry_ok :: "pystate \<Rightarrow> bool" where
  "registry_ok s = (\<forall>k i. Registry s k = Some i \<longrightarrow> i < nextInstance s)"

definition unregistered :: "pystate \<Rightarrow> nat \<Rightarrow> bool" where
  "unregistered s i = (i < nextInstance s \<and> (\<forall>k. Registry s k \<noteq> Some i))"

text \<open>Obtaining the Namespace for a URI, by the constructor or by the lookup API.\<close>

datatype access = By_constructor | By_lookup

definition obtain_namespace :: "unit py \<Rightarrow> access \<Rightarrow> string \<Rightarrow> nat option py" where
  "obtain_namespace validateSchema how u =
     (case how of
        By_constructor \<Rightarrow> py_bind (Namespace validateSchema (Some u)) (\<lambda>i. py_return (Some i))
      | By_lookup \<Rightarrow> NamespaceForURI validateSchema (Some u) True)"

subsection \<open>The state after the module has been imported\<close>

text \<open>
  The module creates its six built-in namespaces (\<^verbatim>\<open>XMLSchema_instance\<close>,
  \<^verbatim>\<open>XMLNamespaces\<close>, \<^verbatim>\<open>XML\<close>, \<^verbatim>\<open>XMLSchema\<close>, \<^verbatim>\<open>XHTML\<close>, \<^verbatim>\<open>XMLSchema_hfp\<close>, in
  this order) and then the dictionary \<^verbatim>\<open>_UndeclaredNamespaceMap\<close>, which binds the bound
  prefix of each undeclared namespace.
\<close>

definition empty_state :: pystate where
  "empty_state = \<lparr>Registry = Map.empty, instances = Map.empty, nextInstance = 0,
     cls_absentNamespaceID = 0, dicts = Map.empty, nextDict = 0\<rparr>"

definition builtin_args :: init_args where
  "builtin_args = default_args\<lparr>is_builtin_namespace := True\<rparr>"

definition new_dict :: "(string option \<times> nat) list \<Rightarrow> nat py" where
  "new_dict d s = (Inr (nextDict s), s\<lparr>dicts := (dicts s)(nextDict s \<mapsto> d), nextDict := Suc (nextDict s)\<rparr>)"

definition module_init :: "unit py" where
  "module_init =
     py_bind (Namespace_call (py_return ()) ''_XMLSchema_instance'' (Some ''http://www.w3.org/2001/XMLSchema-instance'')
        (builtin_args\<lparr>description_arg := Some ''XML Schema Instance'', is_undeclared_namespace := True,
                       bound_prefix := Some ''xsi''\<rparr>)) (\<lambda>XMLSchema_instance.
     py_bind (Namespace_call (py_return ()) ''Namespace'' (Some ''http://www.w3.org/2000/xmlns/'')
        (builtin_args\<lparr>description_arg := Some ''Namespaces in XML'', bound_prefix := Some ''xmlns''\<rparr>)) (\<lambda>XMLNamespaces.
     py_bind (Namespace_call (py_return ()) ''_XML'' (Some ''http://www.w3.org/XML/1998/namespace'')
        (builtin_args\<lparr>description_arg := Some ''XML namespace'',
                       schema_location := Some ''http://www.w3.org/2001/xml.xsd'',
                       is_undeclared_namespace := True, bound_prefix := Some ''xml'',
                       default_namespace := NsName ''XHTML''\<rparr>)) (\<lambda>XML.
     py_bind (Namespace_call (py_return ()) ''_XMLSchema'' (Some ''http://www.w3.org/2001/XMLSchema'')
        (builtin_args\<lparr>schema_location := Some ''http://www.w3.org/2001/XMLSchema.xsd'',
                       description_arg := Some ''XML Schema'',
                       in_scope_namespaces := Some [(''xs'', NsNone)]\<rparr>)) (\<lambda>XMLSchema.
     py_bind (Namespace_call (py_return ()) ''_XHTML'' (Some ''http://www.w3.org/1999/xhtml'')
        (builtin_args\<lparr>description_arg := Some ''Family of document types that extend HTML'',
                       schema_location := Some ''http://www.w3.org/1999/xhtml.xsd'',
                       default_namespace := NsRef XMLSchema\<rparr>)) (\<lambda>XHTML.
     py_bind (Namespace_call (py_return ()) ''Namespace'' (Some ''http://www.w3.org/2001/XMLSchema-hasFacetAndProperty'')
        (builtin_args\<lparr>description_arg := Some ''Facets appearing in appinfo section'',
                       schema_location := Some ''http://www.w3.org/2001/XMLSchema-hasFacetAndProperty'',
                       default_namespace := NsName ''XMLSchema'',
                       in_scope_namespaces := Some [(''hfp'', NsNone), (''xhtml'', NsRef XHTML)]\<rparr>)) (\<lambda>XMLSchema_hfp.
     py_bind (new_dict [(Some ''xsi'', XMLSchema_instance), (Some ''xml'', XML)]) (\<lambda>_.
     py_return ())))))))"

definition module_state :: pystate where
  "module_state = snd (module_init empty_state)"

section \<open>Namespace contexts\<close>




text \<open>
  The attributes of a \<^verbatim>\<open>NamespaceContext\<close>. The in-scope prefix map is held by reference:
  the address of a dictionary of the state, or \<^verbatim>\<open>None\<close>.
\<close>

record nscontext =
  defaultNamespace :: "nat option"
  targetNamespace :: "nat option"
  inScopeNamespaces :: "nat option"
  mutableInScopeNamespaces :: bool
  attributeMap :: "((string option \<times> string) \<times> string) list"



text \<open>
  The module globals \<^verbatim>\<open>_UndeclaredNamespaceMap\<close> (the first dictionary the module
  creates) and \<^verbatim>\<open>XMLNamespaces.uri()\<close>.
\<close>

definition UndeclaredNamespaceMap :: nat where
  "UndeclaredNamespaceMap = 0"





definition dict_get :: "nat option \<Rightarrow> string option \<Rightarrow> pystate \<Rightarrow> pyerror + nat option" where
  "dict_get r k s =
     (case r of
        None \<Rightarrow> Inl AttributeError
      | Some a \<Rightarrow> (case dicts s a of None \<Rightarrow> Inl AttributeError | Some d \<Rightarrow> Inr (map_of d k)))"

text \<open>
  \<^verbatim>\<open>NamespaceForURI(uri, create_if_missing=True)\<close> returns an instance, never \<^verbatim>\<open>None\<close>:
  what it did not find it creates.
\<close>

definition the_instance :: "nat option \<Rightarrow> nat py" where
  "the_instance rv = (case rv of None \<Rightarrow> py_raise TypeError | Some i \<Rightarrow> py_return i)"










text \<open>
  \<^verbatim>\<open>interpretQName(name, is_definition=False)\<close>. \<^verbatim>\<open>name.split(':', 1)\<close> cuts at the first
  colon.
\<close>

definition interpretQName ::
  "nscontext \<Rightarrow> string \<Rightarrow> bool \<Rightarrow> pystate \<Rightarrow> pyerror + (nat option \<times> string)" where
  "interpretQName self name is_definition s =
     (if CHR '':'' \<in> set name then
        (if is_definition then Inl AssertionError
         else (let prefix = takeWhile (\<lambda>c. c \<noteq> CHR '':'') name;
                   local_name = tl (dropWhile (\<lambda>c. c \<noteq> CHR '':'') name)
               in case dict_get (inScopeNamespaces self) (Some prefix) s of
                    Inl e \<Rightarrow> Inl e
                  | Inr None \<Rightarrow> Inl (SchemaValidationError (''QName '' @ name @ '' prefix is not declared''))
                  | Inr (Some namespace) \<Rightarrow> Inr (Some namespace, local_name)))
      else Inr (if is_definition then targetNamespace self else defaultNamespace self, name))"

subsection \<open>What a step may do to the dictionaries\<close>

text \<open>
  \<open>dicts_kept n s s'\<close>: from \<open>s\<close> to \<open>s'\<close> dictionaries were only allocated, and those
  at the addresses below \<open>n\<close> hold what they held. A step keeps the dictionaries when
  every successful run leaves all the dictionaries it found as they were.
\<close>

definition dicts_kept :: "nat \<Rightarrow> pystate \<Rightarrow> pystate \<Rightarrow> bool" where
  "dicts_kept n s s' = (nextDict s \<le> nextDict s' \<and> (\<forall>a<n. dicts s' a = dicts s a))"

definition keeps_dicts :: "'a py \<Rightarrow> bool" where
  "keeps_dicts m = (\<forall>s x s'. m s = (Inr x, s') \<longrightarrow> dicts_kept (nextDict s) s s')"



section \<open>Saved namespaces\<close>

text \<open>
  \<^verbatim>\<open>configureCategories(categories)\<close>: an empty map for each category that has none.
\<close>

definition configureCategories :: "string list \<Rightarrow> namespace \<Rightarrow> namespace" where
  "configureCategories categories ns =
     ns\<lparr>categoryMap := Some (foldl (\<lambda>cm category.
                                      if map_of cm category = None then cm @ [(category, [])] else cm)
                                   (case categoryMap ns of None \<Rightarrow> [] | Some cm \<Rightarrow> cm)
                                   categories)\<rparr>"

text \<open>
  \<^verbatim>\<open>__checkCategoriesEmpty()\<close>: no category map is there, or every map is empty.
\<close>

definition checkCategoriesEmpty :: "namespace \<Rightarrow> bool" where
  "checkCategoriesEmpty ns =
     (case categoryMap ns of
        None \<Rightarrow> True
      | Some cm \<Rightarrow> (if 0 = length cm then True
                    else list_all (\<lambda>(k, m). \<not> 0 < length m) cm))"

text \<open>
  The truth value of a bound method used as a condition, as in
  \<^verbatim>\<open>assert instance.__checkCategoriesEmpty\<close>: the method is an object, which Python takes
  for true; it is not called.
\<close>

definition truth_of_method :: "('a \<Rightarrow> 'b) \<Rightarrow> bool" where
  "truth_of_method m = True"

text \<open>\<^verbatim>\<open>d.update(other)\<close> on a dictionary.\<close>

definition dict_update :: "('k \<times> 'v) list \<Rightarrow> ('k \<times> 'v) list \<Rightarrow> ('k \<times> 'v) list" where
  "dict_update d other = foldl (\<lambda>m (k, v). AList.update k v m) d other"

text \<open>
  The keyword dictionary of the pickled state of a Namespace (\<^verbatim>\<open>__getstate__\<close>), and the
  objects that \<^verbatim>\<open>saveToFile\<close> writes in order: the URI, the instance (its class, the
  arguments of \<^verbatim>\<open>__getnewargs__\<close>, and the state: format tag, arguments, keywords), and
  the category map.
\<close>

record pickled_kw =
  kw_schemaLocation :: "string option"
  kw_description :: "string option"
  kw_modulePath :: "string option"
  kw_bindingConfiguration :: "string option"
  kw_contextDefaultNamespace :: nsval
  kw_contextInScopeNamespaces :: "(string \<times> nsval) list option"

record saved_file =
  file_uri :: "string option"
  pickled_class :: string
  pickled_newargs :: "string option"
  pickled_format :: string
  pickled_args :: "string option"
  pickled_keywords :: pickled_kw
  file_categoryMap :: "(string \<times> (string \<times> nat) list) list"

definition PICKLE_FORMAT :: string where
  "PICKLE_FORMAT = ''200905041925''"

text \<open>
  \<^verbatim>\<open>__setstate__(state)\<close>. The keys of the keyword dictionary are rewritten with the name of
  the instance's class, so they name the private attributes of \<^verbatim>\<open>Namespace\<close> only for an
  instance of class \<^verbatim>\<open>Namespace\<close> itself.
\<close>

definition setstate :: "saved_file \<Rightarrow> namespace \<Rightarrow> pyerror + namespace" where
  "setstate f self =
     (if PICKLE_FORMAT \<noteq> pickled_format f then
        Inl (UnpicklingError (''Got Namespace pickle format '' @ pickled_format f
                               @ '', require '' @ PICKLE_FORMAT))
      else if uri self \<noteq> pickled_args f then Inl AssertionError
      else if className self = ''Namespace'' then
        Inr (self\<lparr>schemaLocation := kw_schemaLocation (pickled_keywords f),
                  description := kw_description (pickled_keywords f),
                  modulePath := kw_modulePath (pickled_keywords f),
                  bindingConfiguration := kw_bindingConfiguration (pickled_keywords f),
                  contextDefaultNamespace := kw_contextDefaultNamespace (pickled_keywords f),
                  contextInScopeNamespaces := kw_contextInScopeNamespaces (pickled_keywords f)\<rparr>)
      else Inr self)"

text \<open>
  Unpickling the instance: the unpickler calls \<^verbatim>\<open>cls.__new__(cls, uri)\<close> and then
  \<^verbatim>\<open>__setstate__\<close> on what it returned.
\<close>

definition unpickle_instance :: "saved_file \<Rightarrow> nat py" where
  "unpickle_instance f =
     py_bind (Namespace_new (pickled_class f) (pickled_newargs f)) (\<lambda>i.
     py_bind (get_instance i) (\<lambda>self.
     case setstate f self of
       Inl e \<Rightarrow> py_raise e
     | Inr self' \<Rightarrow> py_bind (modify_instance i (\<lambda>_. self')) (\<lambda>_. py_return i)))"

text \<open>
  \<^verbatim>\<open>_NamespaceCategory_mixin._LoadFromFile(instance, unpickler)\<close>: the end of the chain,
  which returns \<^verbatim>\<open>None\<close>.
\<close>

definition LoadFromFile_categories :: "saved_file \<Rightarrow> nat \<Rightarrow> unit py" where
  "LoadFromFile_categories f instance =
     py_bind (py_assert (truth_of_method checkCategoriesEmpty)) (\<lambda>_.
     py_bind (modify_instance instance (configureCategories (map fst (file_categoryMap f)))) (\<lambda>_.
     py_bind (modify_instance instance (\<lambda>ns.
                ns\<lparr>categoryMap := map_option
                      (\<lambda>cm. foldl (\<lambda>cm (category, new_map).
                                     case map_of cm category of
                                       None \<Rightarrow> cm
                                     | Some m \<Rightarrow> AList.update category (dict_update m new_map) cm)
                                   cm (file_categoryMap f))
                      (categoryMap ns)\<rparr>)) (\<lambda>_.
     py_return ())))"

text \<open>\<^verbatim>\<open>Namespace._LoadFromFile(instance, unpickler)\<close> and \<^verbatim>\<open>LoadFromFile(file_path)\<close>.\<close>

definition LoadFromFile :: "saved_file \<Rightarrow> unit py" where
  "LoadFromFile f =
     py_bind (py_assert (file_uri f \<noteq> None)) (\<lambda>_.
     py_bind (unpickle_instance f) (\<lambda>instance.
     py_bind (get_instance instance) (\<lambda>ns.
     py_bind (py_assert (uri ns = file_uri f)) (\<lambda>_.
     py_bind (NamespaceForURI_cls (uri ns)) (\<lambda>rv.
     py_bind (py_assert (rv = Some instance)) (\<lambda>_.
     LoadFromFile_categories f instance))))))"

text \<open>Every registered instance is a live object.\<close>

definition registry_live :: "pystate \<Rightarrow> bool" where
  "registry_live s = (\<forall>k i. Registry s k = Some i \<longrightarrow> instances s i \<noteq> None)"

section \<open>Schema components\<close>

text \<open>
  The component classes live in the schema module, outside this module. What the code
  here reads of a component: the name of its class and the names of the classes it is an
  instance of, and the accessors a component may or may not have (\<open>None\<close> for a missing
  accessor, whose call raises AttributeError): \<^verbatim>\<open>name()\<close>, \<^verbatim>\<open>targetNamespace()\<close>,
  \<^verbatim>\<open>scope()\<close>, \<^verbatim>\<open>dependentComponents()\<close>, \<^verbatim>\<open>isUrTypeDefinition()\<close>; \<^verbatim>\<open>bestNCName()\<close> is
  the name that orders components. Components are object identities, compared by
  identity; a store maps each identity to what it exposes.
\<close>

record component =
  class_name :: string
  classes :: "string list"
  name :: "string option option"
  bestNCName :: string
  component_targetNamespace :: "nat option option"
  scope :: "nat option option"
  dependentComponents :: "nat list option"
  isUrTypeDefinition :: "bool option"

type_synonym store = "nat \<Rightarrow> component"

definition isinstance :: "component \<Rightarrow> string \<Rightarrow> bool" where
  "isinstance c cls = (cls \<in> set (classes c))"

text \<open>\<^verbatim>\<open>'%s' % x\<close> for a string or \<^verbatim>\<open>None\<close>, and \<^verbatim>\<open>sep.join(xs)\<close>.\<close>

definition py_str :: "string option \<Rightarrow> string" where
  "py_str x = (case x of None \<Rightarrow> ''None'' | Some v \<Rightarrow> v)"

fun join :: "string \<Rightarrow> string list \<Rightarrow> string" where
  "join sep [] = []"
| "join sep [x] = x"
| "join sep (x # y # ys) = x @ sep @ join sep (y # ys)"

text \<open>
  The names that module \<^verbatim>\<open>pyxb.Namespace\<close> binds at its top level (imports, assignments,
  functions and classes; \<^verbatim>\<open>_ns\<close> is left by the list comprehension that fills
  \<^verbatim>\<open>_UndeclaredNamespaceMap\<close>), and the evaluation of a global name inside a function of
  the module: a name that is neither bound there nor a builtin raises NameError.
\<close>

definition module_globals :: "string list" where
  "module_globals =
     [''pyxb'', ''os'', ''fnmatch'', ''PathEnvironmentVariable'', ''DefaultBindingPath'',
      ''pickle'', ''_Resolvable_mixin'', ''NamedObjectMap'', ''_NamespaceCategory_mixin'',
      ''Namespace'', ''NamespaceForURI'', ''CreateAbsentNamespace'', ''_XMLSchemaModule'',
      ''__LoadableNamespaces'', ''_LoadableNamespaceMap'', ''XMLSchemaModule'',
      ''SetXMLSchemaModule'', ''_XMLSchema_instance'', ''_XML'', ''_XHTML'', ''_XMLSchema'',
      ''AvailableForLoad'', ''XMLSchema_instance'', ''XMLNamespaces'', ''XML'', ''XMLSchema'',
      ''XHTML'', ''XMLSchema_hfp'', ''PredefinedNamespaces'', ''_UndeclaredNamespaceMap'',
      ''_ns'', ''NamespaceContext'']"

definition builtin_names :: "string list" where
  "builtin_names = [''isinstance'', ''len'', ''str'', ''unicode'', ''object'', ''dict'', ''set'',
      ''frozenset'', ''getattr'', ''setattr'', ''super'', ''range'', ''cmp'', ''open'', ''globals'',
      ''issubclass'', ''None'', ''True'', ''False'', ''AttributeError'']"

definition global_name :: "string \<Rightarrow> pyerror + unit" where
  "global_name n =
     (if n \<in> set module_globals \<or> n \<in> set builtin_names then Inr () else Inl (NameError n))"

section \<open>Resolution of definitions\<close>

text \<open>
  What \<^verbatim>\<open>resolveDefinitions\<close> calls on a resolvable component, over a state \<open>'w\<close> of the
  components: \<^verbatim>\<open>isResolved()\<close>, \<^verbatim>\<open>_resolve()\<close> (which may change the components and may
  queue components on the namespace's list of unresolved components), and whether
  \<^verbatim>\<open>_clones()\<close> is not \<^verbatim>\<open>None\<close>.
\<close>

record 'w resolvable =
  isResolved :: "'w \<Rightarrow> nat \<Rightarrow> bool"
  resolve :: "nat \<Rightarrow> 'w \<times> nat list \<Rightarrow> pyerror + 'w \<times> nat list"
  has_clones :: "'w \<Rightarrow> nat \<Rightarrow> bool"

text \<open>
  The \<^verbatim>\<open>for\<close> loop over the saved list: the state is the components and the new list of
  unresolved components.
\<close>

fun resolve_pass :: "'w resolvable \<Rightarrow> nat list \<Rightarrow> 'w \<times> nat list \<Rightarrow> pyerror + 'w \<times> nat list" where
  "resolve_pass ops [] st = Inr st"
| "resolve_pass ops (r # rs) st =
     (case resolve ops r st of
        Inl e \<Rightarrow> Inl e
      | Inr (w, pending) \<Rightarrow>
          if \<not> (isResolved ops w r \<or> r \<in> set pending) then Inl AssertionError
          else if isResolved ops w r \<and> has_clones ops w r then Inl AssertionError
          else resolve_pass ops rs (w, pending))"

text \<open>
  The lines of the diagnostic. The loop evaluates the global names
  \<^verbatim>\<open>_NamedComponent_mixin\<close> and \<^verbatim>\<open>AttributeUse\<close>.
\<close>

fun failed_components :: "store \<Rightarrow> nat list \<Rightarrow> pyerror + string list" where
  "failed_components \<sigma> [] = Inr []"
| "failed_components \<sigma> (d # ds) =
     (case global_name ''_NamedComponent_mixin'' of
        Inl e \<Rightarrow> Inl e
      | Inr _ \<Rightarrow>
          (if isinstance (\<sigma> d) ''_NamedComponent_mixin'' then
             (case name (\<sigma> d) of
                None \<Rightarrow> Inl AttributeError
              | Some n \<Rightarrow>
                  (case failed_components \<sigma> ds of
                     Inl e \<Rightarrow> Inl e
                   | Inr ls \<Rightarrow> Inr ((class_name (\<sigma> d) @ '' named '' @ py_str n) # ls)))
           else
             (case global_name ''AttributeUse'' of
                Inl e \<Rightarrow> Inl e
              | Inr _ \<Rightarrow>
                  (case failed_components \<sigma> ds of
                     Inl e \<Rightarrow> Inl e
                   | Inr ls \<Rightarrow> Inr ((''Anonymous '' @ class_name (\<sigma> d)) # ls)))))"

text \<open>What is raised when a pass leaves the list as it found it.\<close>

definition no_progress :: "store \<Rightarrow> nat list \<Rightarrow> pyerror" where
  "no_progress \<sigma> pending =
     (case failed_components \<sigma> pending of
        Inl e \<Rightarrow> e
      | Inr ls \<Rightarrow> LogicError (''Infinite loop in resolution:'' @ [CHR 0x0A] @ ''  ''
                               @ join ([CHR 0x0A] @ ''  '') ls))"

text \<open>
  The \<^verbatim>\<open>while\<close> loop. Nothing bounds the number of passes when \<^verbatim>\<open>_resolve\<close> keeps
  queueing other components, so the loop is a partial function: \<open>None\<close> is a run that
  does not end.
\<close>

partial_function (option) resolve_loop ::
  "'w resolvable \<Rightarrow> store \<Rightarrow> 'w \<times> nat list \<Rightarrow> (pyerror + 'w) option" where
  "resolve_loop ops \<sigma> st =
     (case st of (w, unresolved) \<Rightarrow>
        if \<not> 0 < length unresolved then Some (Inr w)
        else (case resolve_pass ops unresolved (w, []) of
                Inl e \<Rightarrow> Some (Inl e)
              | Inr (w', pending) \<Rightarrow>
                  if pending = unresolved
                  then Some (Inl (no_progress \<sigma> pending))
                  else resolve_loop ops \<sigma> (w', pending)))"

text \<open>
  \<^verbatim>\<open>resolveDefinitions()\<close>: the list of the namespace is \<^verbatim>\<open>None\<close> once the loop has ended.
\<close>

definition resolveDefinitions ::
  "'w resolvable \<Rightarrow> store \<Rightarrow> 'w \<Rightarrow> namespace \<Rightarrow> (pyerror + 'w \<times> namespace) option" where
  "resolveDefinitions ops \<sigma> w self =
     (case unresolvedComponents self of
        None \<Rightarrow> Some (Inl TypeError)
      | Some unresolved \<Rightarrow>
          (case resolve_loop ops \<sigma> (w, unresolved) of
             None \<Rightarrow> None
           | Some (Inl e) \<Rightarrow> Some (Inl e)
           | Some (Inr w') \<Rightarrow> Some (Inr (w', self\<lparr>unresolvedComponents := None\<rparr>))))"

text \<open>
  Modelled from the spec: the resolution step of a component, whose classes are not
  part of this module. The state of the components is the set of the resolved ones; a
  component has prerequisites; its step returns at once when it is resolved, completes
  when every prerequisite is resolved, and queues the component again otherwise. A
  resolved component has no clones.
\<close>

definition contract_step :: "(nat \<Rightarrow> nat list) \<Rightarrow> nat set \<times> nat list \<Rightarrow> nat \<Rightarrow> nat set \<times> nat list" where
  "contract_step prerequisites st c =
     (case st of (R, pending) \<Rightarrow>
        if c \<in> R then (R, pending)
        else if list_all (\<lambda>d. d \<in> R) (prerequisites c) then (insert c R, pending)
        else (R, pending @ [c]))"

definition contract :: "(nat \<Rightarrow> nat list) \<Rightarrow> (nat set) resolvable" where
  "contract prerequisites =
     \<lparr>isResolved = (\<lambda>R c. c \<in> R),
      resolve = (\<lambda>c st. Inr (contract_step prerequisites st c)),
      has_clones = (\<lambda>R c. False)\<rparr>"



section \<open>Theorems\<close>

lemma categoryMap_of_update:
  "categoryMap_of ns c = Inr m \<Longrightarrow>
   categoryMap_of (ns\<lparr>categoryMap := map_option (AList.update c m') (categoryMap ns)\<rparr>) c = Inr m'"
  by (auto simp: categoryMap_of_def update_conv' split: option.splits)

lemma categoryMap_update_same:
  "categoryMap_of ns c = Inr m \<Longrightarrow>
   ns\<lparr>categoryMap := map_option (AList.update c m) (categoryMap ns)\<rparr> = ns"
  by (auto simp: categoryMap_of_def update_triv split: option.splits)

text \<open>
  C4. Once a component \<open>A\<close> has been registered under a category and local name, the
  call has returned \<open>A\<close> and the category holds \<open>A\<close> under that name; registering \<open>A\<close>
  again under the same name succeeds, returns \<open>A\<close> and leaves the namespace as it is;
  registering any other component under the same name raises NamespaceUniquenessError.
\<close>

theorem addCategoryObject_uniqueness:
  assumes "addCategoryObject ns c n A = Inr (r, ns')"
  shows "r = A \<and> categoryLookup ns' c n = Some A
       \<and> addCategoryObject ns' c n A = Inr (A, ns')
       \<and> (\<forall>B. B \<noteq> A \<longrightarrow>
            addCategoryObject ns' c n B =
              Inl (NamespaceUniquenessError (''Name '' @ n @ '' used for multiple values in '' @ c)))"
proof -
  from assms obtain m where m: "categoryMap_of ns c = Inr m"
    by (auto simp: addCategoryObject_def split: sum.splits)
  let ?m' = "AList.update n A m"
  from assms m have r: "r = A"
    and ns': "ns' = ns\<lparr>categoryMap := map_option (AList.update c ?m') (categoryMap ns)\<rparr>"
    by (auto simp: addCategoryObject_def split: option.splits if_splits)
  have cm': "categoryMap_of ns' c = Inr ?m'"
    unfolding ns' by (rule categoryMap_of_update [OF m])
  have look: "map_of ?m' n = Some A"
    by (simp add: update_conv')
  have same: "ns'\<lparr>categoryMap := map_option (AList.update c (AList.update n A ?m')) (categoryMap ns')\<rparr> = ns'"
    using categoryMap_update_same [OF cm'] by simp
  have again: "addCategoryObject ns' c n A = Inr (A, ns')"
    using cm' look same by (simp add: addCategoryObject_def)
  have other: "\<forall>B. B \<noteq> A \<longrightarrow> addCategoryObject ns' c n B =
      Inl (NamespaceUniquenessError (''Name '' @ n @ '' used for multiple values in '' @ c))"
    using cm' look by (simp add: addCategoryObject_def)
  show ?thesis
    using r cm' look again other by (simp add: categoryLookup_def)
qed

theorem addCategoryObject_uniqueness_witness:
  "addCategoryObject (reset (blank ''Namespace'')\<lparr>categoryMap := Some [(''typeDefinition'', [])]\<rparr>)
       ''typeDefinition'' ''anyType'' 7
     = Inr (7, reset (blank ''Namespace'')\<lparr>categoryMap := Some [(''typeDefinition'', [(''anyType'', 7)])]\<rparr>)
   \<and> categoryLookup (reset (blank ''Namespace'')\<lparr>categoryMap := Some [(''typeDefinition'', [(''anyType'', 7)])]\<rparr>)
       ''typeDefinition'' ''anyType'' = Some 7
   \<and> addCategoryObject (reset (blank ''Namespace'')\<lparr>categoryMap := Some [(''typeDefinition'', [(''anyType'', 7)])]\<rparr>)
       ''typeDefinition'' ''anyType'' 8
     = Inl (NamespaceUniquenessError ''Name anyType used for multiple values in typeDefinition'')"
proof -
  let ?ns = "reset (blank ''Namespace'')\<lparr>categoryMap := Some [(''typeDefinition'', [])]\<rparr>"
  let ?ns' = "reset (blank ''Namespace'')\<lparr>categoryMap := Some [(''typeDefinition'', [(''anyType'', 7)])]\<rparr>"
  have first: "addCategoryObject ?ns ''typeDefinition'' ''anyType'' 7 = Inr (7, ?ns')"
    by (simp add: addCategoryObject_def categoryMap_of_def reset_def blank_def)
  from addCategoryObject_uniqueness [OF first] first show ?thesis
    by simp
qed

text \<open>
  C10. \<^verbatim>\<open>NamespaceForURI(None, create_if_missing)\<close> raises LogicError whatever the flag and
  the state, and leaves the state as it is: the lookup API creates no absent namespace.
\<close>

theorem NamespaceForURI_None:
  "NamespaceForURI validateSchema None create_if_missing s =
     (Inl (LogicError ''Cannot lookup absent namespaces''), s)"
  by (simp add: NamespaceForURI_def py_raise_def)

lemmas py_simps = py_bind_def py_return_def py_raise_def py_assert_def get_instance_def
  modify_instance_def Namespace_call_def Namespace_new_def Namespace_init_def in_Registry_def
  isinstance_ns_def reset_def blank_def default_args_def Namespace_def NamespaceForURI_def
  NamespaceForURI_cls_def CreateAbsentNamespace_def

lemma frame_refl: "frame s s"
  by (simp add: frame_def)

lemma frame_trans:
  assumes a: "frame s s1" and b: "frame s1 s2"
  shows "frame s s2"
proof -
  have le: "nextInstance s \<le> nextInstance s1" "nextInstance s1 \<le> nextInstance s2"
    using a b by (simp_all add: frame_def)
  have keep: "\<And>k i. Registry s k = Some i \<Longrightarrow> Registry s2 k = Some i"
    using a b by (simp add: frame_def)
  have fresh: "Registry s k = Some i \<or> (nextInstance s \<le> i \<and> i < nextInstance s2)"
    if "Registry s2 k = Some i" for k i
  proof -
    from b that have "Registry s1 k = Some i \<or> (nextInstance s1 \<le> i \<and> i < nextInstance s2)"
      by (simp add: frame_def)
    then show ?thesis
    proof
      assume "Registry s1 k = Some i"
      with a have "Registry s k = Some i \<or> (nextInstance s \<le> i \<and> i < nextInstance s1)"
        by (simp add: frame_def)
      with le show ?thesis by auto
    next
      assume "nextInstance s1 \<le> i \<and> i < nextInstance s2"
      with le show ?thesis by auto
    qed
  qed
  show ?thesis
    unfolding frame_def using le keep fresh by auto
qed

lemma frames_return: "frames (py_return x)"
  by (simp add: frames_def py_return_def frame_refl)

lemma frames_raise: "frames (py_raise e)"
  by (simp add: frames_def py_raise_def frame_refl)

lemma frames_bind: "frames m \<Longrightarrow> (\<And>x. frames (f x)) \<Longrightarrow> frames (py_bind m f)"
  unfolding frames_def py_bind_def
  by (auto split: prod.splits sum.splits) (blast intro: frame_trans)

lemma frames_if: "frames a \<Longrightarrow> frames b \<Longrightarrow> frames (if c then a else b)"
  by simp

lemma frames_assert: "frames (py_assert b)"
  by (simp add: py_assert_def frames_return frames_raise)

lemma frames_get_instance: "frames (get_instance i)"
  by (auto simp: frames_def get_instance_def frame_refl split: option.splits)

lemma frames_modify_instance: "frames (modify_instance i f)"
  by (auto simp: frames_def modify_instance_def frame_def split: option.splits)

lemma frames_new: "frames (Namespace_new cls u)"
  by (auto simp: frames_def Namespace_new_def frame_def in_Registry_def Let_def split: option.splits if_splits)

lemma frames_init: "frames vs \<Longrightarrow> frames (Namespace_init vs i u a)"
  unfolding Namespace_init_def
  apply (intro frames_bind frames_if frames_return frames_raise frames_assert frames_get_instance frames_modify_instance)
   apply assumption
  apply (auto simp: frames_def frame_refl split: option.splits)
  done

lemma frames_call: "frames vs \<Longrightarrow> frames (Namespace_call vs cls u a)"
  unfolding Namespace_call_def
  by (intro frames_bind frames_if frames_return frames_new frames_get_instance frames_init)

lemma frames_Namespace: "frames vs \<Longrightarrow> frames (Namespace vs u)"
  by (simp add: Namespace_def frames_call)


lemma frames_CreateAbsentNamespace: "frames vs \<Longrightarrow> frames (CreateAbsentNamespace vs)"
  unfolding CreateAbsentNamespace_def
  apply (intro frames_bind frames_return frames_Namespace)
    apply assumption
   apply (auto simp: frames_def frame_def modify_instance_def split: option.splits)
  done


lemma py_bind_Inr:
  "py_bind m f s = (Inr y, s') \<Longrightarrow> \<exists>x s1. m s = (Inr x, s1) \<and> f x s1 = (Inr y, s')"
  by (auto simp: py_bind_def split: prod.splits sum.splits)

lemma frame_Registry: "frame s s' \<Longrightarrow> Registry s k = Some i \<Longrightarrow> Registry s' k = Some i"
  by (simp add: frame_def)

lemma frame_registry_ok: "frame s s' \<Longrightarrow> registry_ok s \<Longrightarrow> registry_ok s'"
  unfolding frame_def registry_ok_def by (metis less_le_trans)

lemma frame_unregistered: "frame s s' \<Longrightarrow> unregistered s i \<Longrightarrow> unregistered s' i"
  unfolding frame_def unregistered_def by (metis less_le_trans not_le)

lemma framesD: "frames m \<Longrightarrow> m s = (r, s') \<Longrightarrow> frame s s'"
  by (simp add: frames_def)

lemma new_Some:
  "Namespace_new cls (Some u) s = (r, s1) \<Longrightarrow>
   \<exists>i. r = Inr i \<and> Registry s1 u = Some i \<and> (\<forall>j. Registry s u = Some j \<longrightarrow> i = j)"
  by (auto simp: Namespace_new_def in_Registry_def Let_def split: if_splits option.splits)

lemma new_None:
  "Namespace_new cls None s = (r, s1) \<Longrightarrow>
   r = Inr (nextInstance s) \<and> nextInstance s1 = Suc (nextInstance s) \<and> Registry s1 = Registry s"
  by (auto simp: Namespace_new_def in_Registry_def Let_def)

lemma call_Inr:
  assumes vs: "frames vs" and c: "Namespace_call vs cls u a s = (Inr i, s')"
  shows "\<exists>s1. Namespace_new cls u s = (Inr i, s1) \<and> frame s1 s'"
proof -
  let ?rest = "\<lambda>i. py_bind (get_instance i) (\<lambda>ns.
     py_bind (if isinstance_ns ns cls then Namespace_init vs i u a else py_return ()) (\<lambda>_.
     py_return i))"
  from c have "py_bind (Namespace_new cls u) ?rest s = (Inr i, s')"
    by (simp add: Namespace_call_def)
  then obtain x s1 where n: "Namespace_new cls u s = (Inr x, s1)" and r: "?rest x s1 = (Inr i, s')"
    by (blast dest: py_bind_Inr)
  have fr: "frames (?rest x)"
    by (intro frames_bind frames_if frames_return frames_get_instance frames_init vs)
  from r have "x = i"
    by (auto simp: py_bind_def py_return_def split: prod.splits sum.splits)
  with n r framesD [OF fr r] show ?thesis by blast
qed

lemma Namespace_Some:
  assumes vs: "frames vs" and c: "Namespace vs (Some u) s = (Inr i, s')"
  shows "Registry s' u = Some i \<and> (\<forall>j. Registry s u = Some j \<longrightarrow> i = j)"
proof -
  from call_Inr [OF vs c [unfolded Namespace_def]]
  obtain s1 where n: "Namespace_new ''Namespace'' (Some u) s = (Inr i, s1)" and f: "frame s1 s'"
    by blast
  from new_Some [OF n] f show ?thesis
    by (auto dest: frame_Registry)
qed

lemma NamespaceForURI_Some:
  assumes vs: "frames vs" and c: "NamespaceForURI vs (Some u) True s = (Inr r, s')"
  shows "\<exists>i. r = Some i \<and> Registry s' u = Some i \<and> (\<forall>j. Registry s u = Some j \<longrightarrow> i = j)"
proof (cases "Registry s u")
  case None
  with c have "py_bind (Namespace vs (Some u)) (\<lambda>i. py_return (Some i)) s = (Inr r, s')"
    by (simp add: NamespaceForURI_def NamespaceForURI_cls_def py_bind_def)
  then obtain i s1 where n: "Namespace vs (Some u) s = (Inr i, s1)"
      and r: "py_return (Some i) s1 = (Inr r, s')"
    by (blast dest: py_bind_Inr)
  from r have "r = Some i" "s1 = s'" by (simp_all add: py_return_def)
  with Namespace_Some [OF vs n] show ?thesis by simp
next
  case (Some j)
  with c have "r = Some j" "s' = s"
    by (auto simp: NamespaceForURI_def NamespaceForURI_cls_def py_bind_def py_return_def)
  with Some show ?thesis by simp
qed

lemma obtain_namespace_Some:
  assumes vs: "frames vs" and c: "obtain_namespace vs how u s = (Inr r, s')"
  shows "\<exists>i. r = Some i \<and> Registry s' u = Some i \<and> (\<forall>j. Registry s u = Some j \<longrightarrow> i = j)"
proof (cases how)
  case By_constructor
  with c have "py_bind (Namespace vs (Some u)) (\<lambda>i. py_return (Some i)) s = (Inr r, s')"
    by (simp add: obtain_namespace_def)
  then obtain i s1 where n: "Namespace vs (Some u) s = (Inr i, s1)"
      and r: "py_return (Some i) s1 = (Inr r, s')"
    by (blast dest: py_bind_Inr)
  from r have "r = Some i" "s1 = s'" by (simp_all add: py_return_def)
  with Namespace_Some [OF vs n] show ?thesis by simp
next
  case By_lookup
  with c NamespaceForURI_Some [OF vs] show ?thesis
    by (simp add: obtain_namespace_def)
qed

lemma CreateAbsentNamespace_Inr:
  assumes vs: "frames vs" and c: "CreateAbsentNamespace vs s = (Inr i, s')"
  shows "i = nextInstance s \<and> i < nextInstance s' \<and> (registry_ok s \<longrightarrow> unregistered s' i)"
proof -
  let ?rest = "\<lambda>rv. py_bind (\<lambda>s. modify_instance rv (\<lambda>ns. ns\<lparr>absentNamespaceID := Some (cls_absentNamespaceID s)\<rparr>) s) (\<lambda>_.
     py_bind (\<lambda>s. (Inr (), s\<lparr>cls_absentNamespaceID := Suc (cls_absentNamespaceID s)\<rparr>)) (\<lambda>_.
     py_return rv))"
  from c have "py_bind (Namespace vs None) ?rest s = (Inr i, s')"
    by (simp add: CreateAbsentNamespace_def)
  then obtain x s1 where n: "Namespace vs None s = (Inr x, s1)" and r: "?rest x s1 = (Inr i, s')"
    by (blast dest: py_bind_Inr)
  from r have xi: "x = i"
    by (auto simp: py_bind_def py_return_def split: prod.splits sum.splits)
  have "frames (?rest x)"
    by (intro frames_bind frames_return)
       (auto simp: frames_def frame_def modify_instance_def split: option.splits)
  from framesD [OF this r] have f2: "frame s1 s'" .
  from call_Inr [OF vs n [unfolded Namespace_def]]
  obtain s0 where n0: "Namespace_new ''Namespace'' None s = (Inr x, s0)" and f1: "frame s0 s1"
    by blast
  from new_None [OF n0] have x: "x = nextInstance s" and nx: "nextInstance s0 = Suc (nextInstance s)"
    and reg: "Registry s0 = Registry s" by simp_all
  have f: "frame s0 s'" using f1 f2 by (rule frame_trans)
  have lt: "i < nextInstance s'"
    using f nx x xi by (simp add: frame_def)
  have "unregistered s0 i" if "registry_ok s"
    using that x xi nx reg unfolding unregistered_def registry_ok_def
    by (metis lessI less_irrefl)
  with f have "registry_ok s \<longrightarrow> unregistered s' i"
    by (blast intro: frame_unregistered)
  with x xi lt show ?thesis by simp
qed

lemma builtin_call:
  assumes "Registry s k = None" "is_builtin_namespace a"
  shows "Namespace_call vs cls (Some k) a s =
    (Inr (nextInstance s),
     s\<lparr>Registry := (Registry s)(k \<mapsto> nextInstance s),
       instances := (instances s)(nextInstance s \<mapsto>
         (blank cls)\<lparr>uri := Some k, boundPrefix := bound_prefix a,
            schemaLocation := schema_location a, description := description_arg a,
            isBuiltinNamespace := True, isUndeclaredNamespace := is_undeclared_namespace a,
            contextDefaultNamespace := default_namespace a,
            contextInScopeNamespaces := in_scope_namespaces a,
            categoryMap := Some [], unresolvedComponents := Some [], components := Some []\<rparr>),
       nextInstance := Suc (nextInstance s)\<rparr>)"
  using assms
  by (simp add: py_simps Let_def)

lemma module_state_fields:
  "Registry module_state =
     [''http://www.w3.org/2001/XMLSchema-instance'' \<mapsto> 0,
      ''http://www.w3.org/2000/xmlns/'' \<mapsto> 1,
      ''http://www.w3.org/XML/1998/namespace'' \<mapsto> 2,
      ''http://www.w3.org/2001/XMLSchema'' \<mapsto> 3,
      ''http://www.w3.org/1999/xhtml'' \<mapsto> 4,
      ''http://www.w3.org/2001/XMLSchema-hasFacetAndProperty'' \<mapsto> 5]"
  "nextInstance module_state = 6"
  "cls_absentNamespaceID module_state = 0"
  "dicts module_state = [0 \<mapsto> [(Some ''xsi'', 0), (Some ''xml'', 2)]]"
  "nextDict module_state = 1"
  by (simp_all add: module_state_def module_init_def empty_state_def builtin_args_def new_dict_def
        builtin_call py_bind_def py_return_def default_args_def eval_nat_numeral)

lemma module_init_ok: "fst (module_init empty_state) = Inr ()"
  by (simp add: module_init_def empty_state_def builtin_args_def new_dict_def
        builtin_call py_bind_def py_return_def default_args_def)

text \<open>
  C1. Provided \<^verbatim>\<open>XMLSchema_instance.validateSchema\<close> respects the registry: whichever
  way the Namespace for a URI \<open>u\<close> is obtained, by \<^verbatim>\<open>Namespace(u)\<close> or by
  \<^verbatim>\<open>NamespaceForURI(u, create_if_missing=True)\<close>, and whatever registry-respecting
  steps run in between, two successful calls return the same instance, and the registry
  holds it under \<open>u\<close> after each call. Two successful calls of
  \<^verbatim>\<open>CreateAbsentNamespace\<close> return distinct instances, and neither is a value of the
  registry then or after any further registry-respecting steps (every operation of this
  module is one, see \<open>frames_Namespace\<close>, \<open>frames_NamespaceForURI\<close> and
  \<open>frames_CreateAbsentNamespace\<close>).
\<close>

theorem Namespace_singleton_per_URI:
  assumes vs: "frames validateSchema"
  shows "(\<forall>h1 h2 u s r1 s1 s1' r2 s2.
            obtain_namespace validateSchema h1 u s = (Inr r1, s1) \<and> frame s1 s1'
            \<and> obtain_namespace validateSchema h2 u s1' = (Inr r2, s2)
            \<longrightarrow> (\<exists>i. r1 = Some i \<and> r2 = Some i \<and> Registry s1 u = Some i \<and> Registry s2 u = Some i))
       \<and> (\<forall>s a s1 s1' b s2 s3.
            registry_ok s \<and> CreateAbsentNamespace validateSchema s = (Inr a, s1) \<and> frame s1 s1'
            \<and> CreateAbsentNamespace validateSchema s1' = (Inr b, s2) \<and> frame s2 s3
            \<longrightarrow> a \<noteq> b \<and> unregistered s3 a \<and> unregistered s3 b)"
proof -
  have one: "\<exists>i. r1 = Some i \<and> r2 = Some i \<and> Registry s1 u = Some i \<and> Registry s2 u = Some i"
    if h: "obtain_namespace validateSchema h1 u s = (Inr r1, s1) \<and> frame s1 s1'
            \<and> obtain_namespace validateSchema h2 u s1' = (Inr r2, s2)"
    for h1 h2 u s r1 s1 s1' r2 s2
  proof -
  from h obtain_namespace_Some [OF vs, of h1 u s r1 s1]
  obtain i where i: "r1 = Some i" "Registry s1 u = Some i" by blast
  from h i have "Registry s1' u = Some i" by (blast dest: frame_Registry)
  with h obtain_namespace_Some [OF vs, of h2 u s1' r2 s2]
  have "r2 = Some i \<and> Registry s2 u = Some i" by auto
  with i show ?thesis
    by simp
  qed
  have two: "a \<noteq> b \<and> unregistered s3 a \<and> unregistered s3 b"
    if h: "registry_ok s \<and> CreateAbsentNamespace validateSchema s = (Inr a, s1) \<and> frame s1 s1'
            \<and> CreateAbsentNamespace validateSchema s1' = (Inr b, s2) \<and> frame s2 s3"
    for s a s1 s1' b s2 s3
  proof -
  from h have ok: "registry_ok s" and c1: "CreateAbsentNamespace validateSchema s = (Inr a, s1)"
    and f1: "frame s1 s1'" and c2: "CreateAbsentNamespace validateSchema s1' = (Inr b, s2)"
    and f3: "frame s2 s3" by simp_all
  from CreateAbsentNamespace_Inr [OF vs c1] ok
  have a: "a < nextInstance s1" "unregistered s1 a" by blast+
  have ok1: "registry_ok s1'"
    using framesD [OF frames_CreateAbsentNamespace [OF vs] c1] f1 ok
    by (blast intro: frame_registry_ok)
  from CreateAbsentNamespace_Inr [OF vs c2] ok1
  have b: "b = nextInstance s1'" "unregistered s2 b" by blast+
  from f1 a(1) b(1) have "a \<noteq> b" by (auto simp: frame_def)
  moreover have "unregistered s3 a"
    using a(2) f1 framesD [OF frames_CreateAbsentNamespace [OF vs] c2] f3
    by (blast intro: frame_unregistered)
  moreover have "unregistered s3 b"
    using b(2) f3 by (blast intro: frame_unregistered)
  ultimately show ?thesis by simp
  qed
  from one two show ?thesis by blast
qed

theorem Namespace_singleton_per_URI_witness:
  "frames (py_return () :: unit py) \<and> registry_ok module_state
   \<and> (\<exists>i s1 s2.
         obtain_namespace (py_return ()) By_constructor ''urn:a'' module_state = (Inr (Some i), s1)
       \<and> obtain_namespace (py_return ()) By_lookup ''urn:a'' s1 = (Inr (Some i), s2)
       \<and> Registry s2 ''urn:a'' = Some i)
   \<and> (\<exists>a b s1 s2.
         CreateAbsentNamespace (py_return ()) module_state = (Inr a, s1)
       \<and> CreateAbsentNamespace (py_return ()) s1 = (Inr b, s2)
       \<and> a \<noteq> b \<and> unregistered s2 a \<and> unregistered s2 b)"
proof -
  let ?vs = "py_return () :: unit py"
  have vs: "frames ?vs" by (rule frames_return)
  have ok: "registry_ok module_state"
    by (simp add: registry_ok_def module_state_fields split: if_splits)
  note main = Namespace_singleton_per_URI [OF vs]
  obtain s1 where c1: "obtain_namespace ?vs By_constructor ''urn:a'' module_state = (Inr (Some 6), s1)"
    by (simp add: obtain_namespace_def module_state_fields py_simps)
  obtain r2 s2 where c2: "obtain_namespace ?vs By_lookup ''urn:a'' s1 = (r2, s2)"
    by fastforce
  have "fst (obtain_namespace ?vs By_lookup ''urn:a''
               (snd (obtain_namespace ?vs By_constructor ''urn:a'' module_state))) = Inr (Some 6)"
    by (simp add: obtain_namespace_def module_state_fields py_simps)
  with c1 c2 have r2: "r2 = Inr (Some 6)" by simp
  from main c1 c2 [unfolded r2] frame_refl [of s1]
  have "\<exists>i. Some 6 = Some i \<and> Some 6 = Some i \<and> Registry s1 ''urn:a'' = Some i \<and> Registry s2 ''urn:a'' = Some i"
    by blast
  then have one: "Registry s2 ''urn:a'' = Some 6" by simp
  obtain t1 where a1: "CreateAbsentNamespace ?vs module_state = (Inr 6, t1)"
    by (simp add: module_state_fields py_simps)
  obtain rb t2 where a2: "CreateAbsentNamespace ?vs t1 = (rb, t2)"
    by fastforce
  have "fst (CreateAbsentNamespace ?vs (snd (CreateAbsentNamespace ?vs module_state))) = Inr 7"
    by (simp add: module_state_fields py_simps)
  with a1 a2 have rb: "rb = Inr 7" by simp
  from main ok a1 a2 [unfolded rb] frame_refl [of t1] frame_refl [of t2]
  have two: "(6::nat) \<noteq> 7 \<and> unregistered t2 6 \<and> unregistered t2 7"
    by blast
  from vs ok c1 c2 [unfolded r2] one a1 a2 [unfolded rb] two show ?thesis
    by blast
qed

lemma dicts_kept_refl: "dicts_kept n s s"
  by (simp add: dicts_kept_def)





lemma keeps_return: "keeps_dicts (py_return x)"
  by (simp add: keeps_dicts_def py_return_def dicts_kept_refl)

lemma keeps_raise: "keeps_dicts (py_raise e)"
  by (simp add: keeps_dicts_def py_raise_def)











lemma keeps_the_instance: "keeps_dicts (the_instance rv)"
  by (cases rv) (simp_all add: the_instance_def keeps_return keeps_raise)




lemma py_return_Inr: "py_return x s = (Inr y, s') \<Longrightarrow> y = x \<and> s' = s"
  by (simp add: py_return_def)
























lemma split_at_first_colon:
  assumes "CHR '':'' \<notin> set prefix"
  shows "takeWhile (\<lambda>c. c \<noteq> CHR '':'') (prefix @ '':'' @ local_name) = prefix"
    and "tl (dropWhile (\<lambda>c. c \<noteq> CHR '':'') (prefix @ '':'' @ local_name)) = local_name"
proof -
  from assms have all: "\<forall>c\<in>set prefix. c \<noteq> CHR '':''" by blast
  then show "takeWhile (\<lambda>c. c \<noteq> CHR '':'') (prefix @ '':'' @ local_name) = prefix"
    by (simp add: takeWhile_append2)
  from all show "tl (dropWhile (\<lambda>c. c \<noteq> CHR '':'') (prefix @ '':'' @ local_name)) = local_name"
    by (simp add: dropWhile_append2)
qed

text \<open>
  C9, as stated, fails: a name with a prefix that the in-scope map does not bind,
  interpreted with \<^verbatim>\<open>is_definition\<close> set, fails the assertion
  \<^verbatim>\<open>assert not is_definition\<close>; no validation error is raised.
\<close>

theorem interpretQName_counterexample:
  "dict_get (Some UndeclaredNamespaceMap) (Some ''p'') module_state = Inr None
   \<and> interpretQName \<lparr>defaultNamespace = Some 3, targetNamespace = Some 3,
        inScopeNamespaces = Some UndeclaredNamespaceMap, mutableInScopeNamespaces = False,
        attributeMap = []\<rparr> ''p:x'' True module_state = Inl AssertionError"
  by (simp add: interpretQName_def dict_get_def UndeclaredNamespaceMap_def module_state_fields)

text \<open>
  C9, amended. In a context whose in-scope map is a dictionary, a name
  \<open>prefix:local_name\<close> used as a reference (\<^verbatim>\<open>is_definition\<close> false) is cut at its first
  colon and the prefix looked up in that dictionary: SchemaValidationError when the
  dictionary does not bind it, the pair of the bound Namespace and the local name
  otherwise. With \<^verbatim>\<open>is_definition\<close> set such a name fails the assertion. A name without a
  colon yields the pair of the target namespace and the name when \<^verbatim>\<open>is_definition\<close> is
  set, and of the default namespace (possibly \<^verbatim>\<open>None\<close>) and the name otherwise.
\<close>

theorem interpretQName_resolution:
  "(CHR '':'' \<notin> set prefix \<and> dict_get (inScopeNamespaces self) (Some prefix) s = Inr r \<longrightarrow>
      interpretQName self (prefix @ '':'' @ local_name) False s =
        (case r of
           None \<Rightarrow> Inl (SchemaValidationError
                          (''QName '' @ prefix @ '':'' @ local_name @ '' prefix is not declared''))
         | Some ns \<Rightarrow> Inr (Some ns, local_name)))
   \<and> interpretQName self (prefix @ '':'' @ local_name) True s = Inl AssertionError
   \<and> (CHR '':'' \<notin> set qname \<longrightarrow>
        interpretQName self qname True s = Inr (targetNamespace self, qname)
      \<and> interpretQName self qname False s = Inr (defaultNamespace self, qname))"
proof -
  have "interpretQName self (prefix @ '':'' @ local_name) False s =
        (case r of
           None \<Rightarrow> Inl (SchemaValidationError
                          (''QName '' @ prefix @ '':'' @ local_name @ '' prefix is not declared''))
         | Some ns \<Rightarrow> Inr (Some ns, local_name))"
    if "CHR '':'' \<notin> set prefix" "dict_get (inScopeNamespaces self) (Some prefix) s = Inr r"
    using that split_at_first_colon [OF that(1), of local_name]
    by (simp add: interpretQName_def split: option.splits)
  then show ?thesis
    by (simp add: interpretQName_def)
qed

theorem interpretQName_resolution_witness:
  "interpretQName \<lparr>defaultNamespace = Some 3, targetNamespace = Some 4,
        inScopeNamespaces = Some UndeclaredNamespaceMap, mutableInScopeNamespaces = False,
        attributeMap = []\<rparr> ''xsi:type'' False module_state = Inr (Some 0, ''type'')
   \<and> interpretQName \<lparr>defaultNamespace = Some 3, targetNamespace = Some 4,
        inScopeNamespaces = Some UndeclaredNamespaceMap, mutableInScopeNamespaces = False,
        attributeMap = []\<rparr> ''q:x'' False module_state
       = Inl (SchemaValidationError ''QName q:x prefix is not declared'')
   \<and> interpretQName \<lparr>defaultNamespace = Some 3, targetNamespace = Some 4,
        inScopeNamespaces = Some UndeclaredNamespaceMap, mutableInScopeNamespaces = False,
        attributeMap = []\<rparr> ''elt'' True module_state = Inr (Some 4, ''elt'')
   \<and> interpretQName \<lparr>defaultNamespace = Some 3, targetNamespace = Some 4,
        inScopeNamespaces = Some UndeclaredNamespaceMap, mutableInScopeNamespaces = False,
        attributeMap = []\<rparr> ''elt'' False module_state = Inr (Some 3, ''elt'')"
proof -
  let ?self = "\<lparr>defaultNamespace = Some 3, targetNamespace = Some 4,
        inScopeNamespaces = Some UndeclaredNamespaceMap, mutableInScopeNamespaces = False,
        attributeMap = []\<rparr>"
  have g1: "dict_get (inScopeNamespaces ?self) (Some ''xsi'') module_state = Inr (Some 0)"
    and g2: "dict_get (inScopeNamespaces ?self) (Some ''q'') module_state = Inr None"
    by (simp_all add: dict_get_def UndeclaredNamespaceMap_def module_state_fields)
  have c: "CHR '':'' \<notin> set ''xsi''" "CHR '':'' \<notin> set ''q''" "CHR '':'' \<notin> set ''elt''"
    by simp_all
  from interpretQName_resolution [of "''xsi''" ?self module_state "Some 0" "''type''" "''elt''"]
       interpretQName_resolution [of "''q''" ?self module_state None "''x''" "''elt''"]
       g1 g2 c
  show ?thesis by simp
qed

text \<open>
  C6. A namespace registered for \<^verbatim>\<open>urn:a\<close> holds component 11 under the name \<open>a\<close> of
  category \<open>typeDefinition\<close>, so \<^verbatim>\<open>__checkCategoriesEmpty()\<close> would say no. Loading a
  saved file for \<^verbatim>\<open>urn:a\<close> that holds component 12 under \<open>b\<close> in the same category
  raises nothing and leaves the namespace with both.
\<close>

theorem LoadFromFile_merges_silently:
  "checkCategoriesEmpty
     ((reset (blank ''Namespace''))\<lparr>uri := Some ''urn:a'',
         categoryMap := Some [(''typeDefinition'', [(''a'', 11)])]\<rparr>) = False
   \<and> fst (LoadFromFile
        \<lparr>file_uri = Some ''urn:a'', pickled_class = ''Namespace'', pickled_newargs = Some ''urn:a'',
         pickled_format = PICKLE_FORMAT, pickled_args = Some ''urn:a'',
         pickled_keywords = \<lparr>kw_schemaLocation = None, kw_description = None, kw_modulePath = None,
           kw_bindingConfiguration = None, kw_contextDefaultNamespace = NsNone,
           kw_contextInScopeNamespaces = None\<rparr>,
         file_categoryMap = [(''typeDefinition'', [(''b'', 12)])]\<rparr>
        (module_state\<lparr>Registry := (Registry module_state)(''urn:a'' \<mapsto> 6),
           instances := (instances module_state)(6 \<mapsto>
             (reset (blank ''Namespace''))\<lparr>uri := Some ''urn:a'',
                categoryMap := Some [(''typeDefinition'', [(''a'', 11)])]\<rparr>),
           nextInstance := 7\<rparr>)) = Inr ()
   \<and> map_option categoryMap (instances (snd (LoadFromFile
        \<lparr>file_uri = Some ''urn:a'', pickled_class = ''Namespace'', pickled_newargs = Some ''urn:a'',
         pickled_format = PICKLE_FORMAT, pickled_args = Some ''urn:a'',
         pickled_keywords = \<lparr>kw_schemaLocation = None, kw_description = None, kw_modulePath = None,
           kw_bindingConfiguration = None, kw_contextDefaultNamespace = NsNone,
           kw_contextInScopeNamespaces = None\<rparr>,
         file_categoryMap = [(''typeDefinition'', [(''b'', 12)])]\<rparr>
        (module_state\<lparr>Registry := (Registry module_state)(''urn:a'' \<mapsto> 6),
           instances := (instances module_state)(6 \<mapsto>
             (reset (blank ''Namespace''))\<lparr>uri := Some ''urn:a'',
                categoryMap := Some [(''typeDefinition'', [(''a'', 11)])]\<rparr>),
           nextInstance := 7\<rparr>))) 6)
       = Some (Some [(''typeDefinition'', [(''a'', 11), (''b'', 12)])])"
  by (simp add: LoadFromFile_def LoadFromFile_categories_def unpickle_instance_def setstate_def
        configureCategories_def checkCategoriesEmpty_def truth_of_method_def dict_update_def
        module_state_fields py_simps)

lemma module_state_live: "registry_live module_state"
proof -
  have "instances module_state i \<noteq> None" if "i < 6" for i
  proof -
    from that have "i = 0 \<or> i = 1 \<or> i = 2 \<or> i = 3 \<or> i = 4 \<or> i = 5" by arith
    then show ?thesis
      by (auto simp: module_state_def module_init_def empty_state_def builtin_args_def new_dict_def
            builtin_call py_bind_def py_return_def default_args_def eval_nat_numeral)
  qed
  moreover have "i < 6" if "Registry module_state k = Some i" for k i
    using that by (simp add: module_state_fields split: if_splits)
  ultimately show ?thesis
    unfolding registry_live_def by blast
qed

lemma unpickle_instance_mismatch:
  assumes "pickled_format f \<noteq> PICKLE_FORMAT" and live: "registry_live s"
  shows "unpickle_instance f s =
     (Inl (UnpicklingError (''Got Namespace pickle format '' @ pickled_format f
                             @ '', require '' @ PICKLE_FORMAT)),
      if in_Registry s (pickled_newargs f) then s
      else s\<lparr>Registry := (case pickled_newargs f of
                             None \<Rightarrow> Registry s
                           | Some k \<Rightarrow> (Registry s)(k \<mapsto> nextInstance s)),
             instances := (instances s)(nextInstance s \<mapsto>
                            reset ((blank (pickled_class f))\<lparr>uri := pickled_newargs f\<rparr>)),
             nextInstance := Suc (nextInstance s)\<rparr>)"
proof (cases "in_Registry s (pickled_newargs f)")
  case True
  then obtain k i where k: "pickled_newargs f = Some k" "Registry s k = Some i"
    by (auto simp: in_Registry_def split: option.splits)
  with live obtain ns where "instances s i = Some ns"
    by (auto simp: registry_live_def)
  with True k assms show ?thesis
    by (simp add: unpickle_instance_def Namespace_new_def py_bind_def get_instance_def
          setstate_def py_raise_def)
next
  case False
  with assms show ?thesis
    by (cases "pickled_newargs f")
       (simp_all add: unpickle_instance_def Namespace_new_def py_bind_def get_instance_def
            setstate_def py_raise_def Let_def)
qed

text \<open>
  C7, as stated, fails: loading a saved file for the unregistered URI \<^verbatim>\<open>urn:new\<close> whose
  format tag is not the reader's raises UnpicklingError, yet the registry then holds a
  Namespace for \<^verbatim>\<open>urn:new\<close>: the unpickler has called \<^verbatim>\<open>__new__\<close> before
  \<^verbatim>\<open>__setstate__\<close> checked the tag.
\<close>

theorem LoadFromFile_mismatch_counterexample:
  "Registry module_state ''urn:new'' = None
   \<and> fst (LoadFromFile
        \<lparr>file_uri = Some ''urn:new'', pickled_class = ''Namespace'', pickled_newargs = Some ''urn:new'',
         pickled_format = ''200812310000'', pickled_args = Some ''urn:new'',
         pickled_keywords = \<lparr>kw_schemaLocation = None, kw_description = None, kw_modulePath = None,
           kw_bindingConfiguration = None, kw_contextDefaultNamespace = NsNone,
           kw_contextInScopeNamespaces = None\<rparr>,
         file_categoryMap = []\<rparr> module_state)
       = Inl (UnpicklingError ''Got Namespace pickle format 200812310000, require 200905041925'')
   \<and> Registry (snd (LoadFromFile
        \<lparr>file_uri = Some ''urn:new'', pickled_class = ''Namespace'', pickled_newargs = Some ''urn:new'',
         pickled_format = ''200812310000'', pickled_args = Some ''urn:new'',
         pickled_keywords = \<lparr>kw_schemaLocation = None, kw_description = None, kw_modulePath = None,
           kw_bindingConfiguration = None, kw_contextDefaultNamespace = NsNone,
           kw_contextInScopeNamespaces = None\<rparr>,
         file_categoryMap = []\<rparr> module_state)) ''urn:new'' = Some 6"
  by (simp add: LoadFromFile_def unpickle_instance_def setstate_def PICKLE_FORMAT_def
        module_state_fields py_simps)

text \<open>
  C7, amended. For every saved file with a URI whose format tag is not the reader's, and
  every state whose registered instances are live: loading raises UnpicklingError. When
  the URI that the pickled instance carries is registered, the state is left as it was.
  When it is not, the state differs in one fresh instance, as \<^verbatim>\<open>__new__\<close> makes it (empty
  category map, no components), registered under that URI; nothing of the saved metadata
  or category maps has been merged, and what was registered or live before is unchanged.
\<close>

theorem LoadFromFile_mismatch:
  assumes "pickled_format f \<noteq> PICKLE_FORMAT" and "file_uri f \<noteq> None" and "registry_live s"
  shows "LoadFromFile f s =
     (Inl (UnpicklingError (''Got Namespace pickle format '' @ pickled_format f
                             @ '', require '' @ PICKLE_FORMAT)),
      if in_Registry s (pickled_newargs f) then s
      else s\<lparr>Registry := (case pickled_newargs f of
                             None \<Rightarrow> Registry s
                           | Some k \<Rightarrow> (Registry s)(k \<mapsto> nextInstance s)),
             instances := (instances s)(nextInstance s \<mapsto>
                            reset ((blank (pickled_class f))\<lparr>uri := pickled_newargs f\<rparr>)),
             nextInstance := Suc (nextInstance s)\<rparr>)"
  using assms(2) unpickle_instance_mismatch [OF assms(1,3)]
  by (simp add: LoadFromFile_def py_bind_def py_assert_def py_return_def)

theorem LoadFromFile_mismatch_witness:
  "''200812310000'' \<noteq> PICKLE_FORMAT \<and> registry_live module_state
   \<and> LoadFromFile
        \<lparr>file_uri = Some ''http://www.w3.org/1999/xhtml'', pickled_class = ''_XHTML'',
         pickled_newargs = Some ''http://www.w3.org/1999/xhtml'',
         pickled_format = ''200812310000'', pickled_args = Some ''http://www.w3.org/1999/xhtml'',
         pickled_keywords = \<lparr>kw_schemaLocation = None, kw_description = None, kw_modulePath = None,
           kw_bindingConfiguration = None, kw_contextDefaultNamespace = NsNone,
           kw_contextInScopeNamespaces = None\<rparr>,
         file_categoryMap = [(''typeDefinition'', [(''b'', 12)])]\<rparr> module_state
     = (Inl (UnpicklingError ''Got Namespace pickle format 200812310000, require 200905041925''),
        module_state)"
proof -
  let ?f = "\<lparr>file_uri = Some ''http://www.w3.org/1999/xhtml'', pickled_class = ''_XHTML'',
         pickled_newargs = Some ''http://www.w3.org/1999/xhtml'',
         pickled_format = ''200812310000'', pickled_args = Some ''http://www.w3.org/1999/xhtml'',
         pickled_keywords = \<lparr>kw_schemaLocation = None, kw_description = None, kw_modulePath = None,
           kw_bindingConfiguration = None, kw_contextDefaultNamespace = NsNone,
           kw_contextInScopeNamespaces = None\<rparr>,
         file_categoryMap = [(''typeDefinition'', [(''b'', 12)])]\<rparr>"
  have a: "pickled_format ?f \<noteq> PICKLE_FORMAT" by (simp add: PICKLE_FORMAT_def)
  have b: "file_uri ?f \<noteq> None" by simp
  have c: "in_Registry module_state (pickled_newargs ?f)"
    by (simp add: in_Registry_def module_state_fields)
  from LoadFromFile_mismatch [OF a b module_state_live] c a module_state_live show ?thesis
    by (simp add: PICKLE_FORMAT_def)
qed

lemma global_name_NamedComponent_mixin:
  "global_name ''_NamedComponent_mixin'' = Inl (NameError ''_NamedComponent_mixin'')"
  by (simp add: global_name_def module_globals_def builtin_names_def)

lemma no_progress_NameError:
  "pending \<noteq> [] \<Longrightarrow> no_progress \<sigma> pending = NameError ''_NamedComponent_mixin''"
  by (cases pending) (simp_all add: no_progress_def global_name_NamedComponent_mixin)

lemma resolve_pass_contract:
  "resolve_pass (contract deps) xs st = Inr (foldl (contract_step deps) st xs)"
proof (induction xs arbitrary: st)
  case Nil
  show ?case by simp
next
  case (Cons x xs)
  obtain R acc where st: "st = (R, acc)" by (cases st)
  obtain R' acc' where s': "contract_step deps (R, acc) x = (R', acc')"
    by (cases "contract_step deps (R, acc) x")
  then have "x \<in> R' \<or> x \<in> set acc'"
    by (auto simp: contract_step_def split: if_splits)
  with Cons [of "(R', acc')"] s' show ?case
    by (simp add: st contract_def)
qed








text \<open>
  C2. Two components \<open>A\<close> (1) and \<open>B\<close> (2) that follow the contract, each a prerequisite
  of the other, pending on a namespace: the first pass leaves the list as it found it,
  and \<^verbatim>\<open>resolveDefinitions\<close> raises NameError for the global name
  \<^verbatim>\<open>_NamedComponent_mixin\<close>, which the module does not bind; no diagnostic naming
  \<open>A\<close> and \<open>B\<close> is built, and no LogicError is raised.
\<close>

theorem resolveDefinitions_cycle_NameError:
  "resolveDefinitions (contract (\<lambda>c. if c = 1 then [2] else if c = 2 then [1] else []))
     (\<lambda>c. \<lparr>class_name = ''ComplexTypeDefinition'',
            classes = [''ComplexTypeDefinition'', ''_NamedComponent_mixin'', ''_Resolvable_mixin''],
            name = Some (Some (if c = 1 then ''A'' else ''B'')),
            bestNCName = (if c = 1 then ''A'' else ''B''),
            component_targetNamespace = Some (Some 6), scope = None,
            dependentComponents = Some (if c = 1 then [2] else [1]),
            isUrTypeDefinition = Some False\<rparr>)
     {} ((reset (blank ''Namespace''))\<lparr>unresolvedComponents := Some [1, 2]\<rparr>)
   = Some (Inl (NameError ''_NamedComponent_mixin''))"
proof -
  let ?deps = "\<lambda>c::nat. if c = 1 then [2] else if c = 2 then [1::nat] else []"
  have "resolve_pass (contract ?deps) [1, 2] ({}, []) = Inr ({}, [1, 2])"
    unfolding resolve_pass_contract by (simp add: contract_step_def)
  then have "resolve_loop (contract ?deps) \<sigma> ({}, [1, 2]) = Some (Inl (NameError ''_NamedComponent_mixin''))"
    for \<sigma>
    by (subst resolve_loop.simps) (simp add: no_progress_NameError del: resolve_pass.simps)
  then show ?thesis
    by (simp add: resolveDefinitions_def reset_def)
qed

end
